theory Spec2Isabelle
  imports Complex_Main "HOL-Library.Word" "HOL-Library.Signed_Division"
begin

section \<open>Escape-time evaluators\<close>

text \<open>
  The repository holds two programs: \<^verbatim>\<open>src/main.go\<close> (Mandelbrot only) and
  \<^verbatim>\<open>src/unnamed/part_000\<close> (Mandelbrot and Julia, with a toggle button). The functions
  \<^verbatim>\<open>mandelbrot\<close>, \<^verbatim>\<open>getColor\<close> and the table \<^verbatim>\<open>colorMapping\<close> are the same text in both.

  A Go \<^verbatim>\<open>float64\<close> is modelled as a \<^typ>\<open>real\<close>: arithmetic is exact, and rounding,
  overflow, infinities and NaN are outside this part of the model (they are the subject of
  the section on non-finite values). A Go \<^verbatim>\<open>int\<close> is modelled as an \<^typ>\<open>int\<close>; the
  only arithmetic on it is the loop counter, which stays below \<^verbatim>\<open>maxIter\<close> and so cannot
  wrap.
\<close>

subsection \<open>mandelbrot\<close>

text \<open>
  \<^verbatim>\<open>
  for x*x+y*y <= 4 && iteration < maxIter {
      xTemp := x*x - y*y + cx
      y = 2*x*y + cy
      x = xTemp
      iteration++
  }
  \<close>
  The loop returns the final \<^verbatim>\<open>(x, y, iteration)\<close>.
\<close>

function mandelbrot_loop :: "real \<Rightarrow> real \<Rightarrow> int \<Rightarrow> real \<Rightarrow> real \<Rightarrow> int \<Rightarrow> real \<times> real \<times> int" where
  "mandelbrot_loop cx cy maxIter x y iteration =
     (if x * x + y * y \<le> 4 \<and> iteration < maxIter
      then (let xTemp = x * x - y * y + cx;
                y' = 2 * x * y + cy
            in mandelbrot_loop cx cy maxIter xTemp y' (iteration + 1))
      else (x, y, iteration))"
  by pat_completeness auto
termination
  by (relation "measure (\<lambda>(cx, cy, maxIter, x, y, iteration). nat (maxIter - iteration))") auto

declare mandelbrot_loop.simps [simp del]

definition mandelbrot :: "real \<Rightarrow> real \<Rightarrow> int \<Rightarrow> real" where
  "mandelbrot cx cy maxIter =
     (case mandelbrot_loop cx cy maxIter 0 0 0 of
        (x, y, iteration) \<Rightarrow>
          if iteration < maxIter
          then (let logZn = ln (x * x + y * y) / 2
                in real_of_int iteration + 1 - ln logZn / ln 2)
          else real_of_int maxIter)"

subsection \<open>julia\<close>

text \<open>
  The source repeats the loop and the smoothing formula in \<^verbatim>\<open>julia\<close>; the starting point
  \<^verbatim>\<open>(x, y)\<close> is a parameter and \<^verbatim>\<open>(cx, cy)\<close> is the constant that is added.
\<close>

function julia_loop :: "real \<Rightarrow> real \<Rightarrow> int \<Rightarrow> real \<Rightarrow> real \<Rightarrow> int \<Rightarrow> real \<times> real \<times> int" where
  "julia_loop cx cy maxIter x y iteration =
     (if x * x + y * y \<le> 4 \<and> iteration < maxIter
      then (let xTemp = x * x - y * y + cx;
                y' = 2 * x * y + cy
            in julia_loop cx cy maxIter xTemp y' (iteration + 1))
      else (x, y, iteration))"
  by pat_completeness auto
termination
  by (relation "measure (\<lambda>(cx, cy, maxIter, x, y, iteration). nat (maxIter - iteration))") auto

declare julia_loop.simps [simp del]

definition julia :: "real \<Rightarrow> real \<Rightarrow> real \<Rightarrow> real \<Rightarrow> int \<Rightarrow> real" where
  "julia x y cx cy maxIter =
     (case julia_loop cx cy maxIter x y 0 of
        (x', y', iteration) \<Rightarrow>
          if iteration < maxIter
          then (let logZn = ln (x' * x' + y' * y') / 2
                in real_of_int iteration + 1 - ln logZn / ln 2)
          else real_of_int maxIter)"

section \<open>Colour lookup\<close>

text \<open>
  \<^verbatim>\<open>color.RGBA\<close> has four \<^verbatim>\<open>uint8\<close> fields; \<^verbatim>\<open>color.RGBA{}\<close> is the zero value,
  transparent black.
\<close>

datatype RGBA = RGBA (R: "8 word") (G: "8 word") (B: "8 word") (A: "8 word")

definition colorMapping :: "RGBA list" where
  "colorMapping =
    [RGBA 66 30 15 255,
     RGBA 25 7 26 255,
     RGBA 9 1 47 255,
     RGBA 4 4 73 255,
     RGBA 0 7 100 255,
     RGBA 12 44 138 255,
     RGBA 24 82 177 255,
     RGBA 57 125 209 255,
     RGBA 134 181 229 255,
     RGBA 211 236 248 255,
     RGBA 241 233 191 255,
     RGBA 248 201 95 255,
     RGBA 255 170 0 255,
     RGBA 204 128 0 255,
     RGBA 153 87 0 255,
     RGBA 106 52 3 255]"

text \<open>
  Indexing a Go slice outside \<^verbatim>\<open>0 <= i < len(s)\<close> is a run-time panic, which the model
  returns as a value.
\<close>

datatype go_panic = IndexOutOfRange

definition slice_index :: "'a list \<Rightarrow> int \<Rightarrow> go_panic + 'a" where
  "slice_index s i = (if 0 \<le> i \<and> i < int (length s) then Inr (s ! nat i) else Inl IndexOutOfRange)"

text \<open>
  \<^verbatim>\<open>
  func getColor(iterations, maxIter int) color.RGBA {
      if iterations < maxIter && iterations > 0 {
          i := iterations % len(colorMapping)
          return colorMapping[i]
      }
      return color.RGBA{}
  }
  \<close>
  Go's \<^verbatim>\<open>%\<close> truncates towards zero: it is \<open>smod\<close> on \<^typ>\<open>int\<close>.
\<close>

definition getColor :: "int \<Rightarrow> int \<Rightarrow> go_panic + RGBA" where
  "getColor iterations maxIter =
     (if iterations < maxIter \<and> iterations > 0
      then (let i = iterations smod int (length colorMapping)
            in slice_index colorMapping i)
      else Inr (RGBA 0 0 0 0))"

text \<open>
  The conversion \<^verbatim>\<open>int(f)\<close> of a \<^verbatim>\<open>float64\<close> discards the fraction (truncation towards
  zero). Go defines the result only when it fits the integer type; the model agrees with
  Go for \<open>\<bar>f\<bar> < 2 ^ 63\<close>.
\<close>

definition go_int :: "real \<Rightarrow> int" where
  "go_int f = (if 0 \<le> f then \<lfloor>f\<rfloor> else \<lceil>f\<rceil>)"

section \<open>The game state\<close>

text \<open>
  \<^verbatim>\<open>Game\<close> of \<^verbatim>\<open>src/main.go\<close> is the record \<open>Game0\<close>; \<^verbatim>\<open>Game\<close> of
  \<^verbatim>\<open>src/unnamed/part_000\<close> has the same fields and three more. \<^verbatim>\<open>time.Time\<close> is
  modelled as a number of seconds, so that \<^verbatim>\<open>now.Sub(g.lastUpdate).Seconds()\<close> is a
  difference.
\<close>

record Game0 =
  minX :: real
  maxX :: real
  minY :: real
  maxY :: real
  centerX :: real
  centerY :: real
  zoom :: real
  zoomSpeed :: real
  lastUpdate :: real

record Game = Game0 +
  juliaX :: real
  juliaY :: real
  fractalType :: int

definition FractalMandelbrot :: int where
  "FractalMandelbrot = 0"

definition FractalJulia :: int where
  "FractalJulia = 1"

text \<open>
  What the host (the clock and the \<^verbatim>\<open>ebiten\<close> input functions) answers during one call
  of \<^verbatim>\<open>Update\<close>: \<^verbatim>\<open>time.Now()\<close>, \<^verbatim>\<open>ebiten.IsMouseButtonPressed(ebiten.MouseButtonLeft)\<close>
  and \<^verbatim>\<open>ebiten.CursorPosition()\<close>.
\<close>

record Host =
  now :: real
  leftPressed :: bool
  cursorX :: int
  cursorY :: int

text \<open>
  The two regions of the sidebar that \<^verbatim>\<open>Update\<close> tests for: the zoom-speed slider and
  (in \<^verbatim>\<open>part_000\<close>) the toggle button.
\<close>

definition on_slider :: "Host \<Rightarrow> bool" where
  "on_slider h \<longleftrightarrow> leftPressed h \<and> cursorX h < 100 \<and> 70 \<le> cursorY h \<and> cursorY h \<le> 270"

definition on_button :: "Host \<Rightarrow> bool" where
  "on_button h \<longleftrightarrow> leftPressed h \<and> cursorX h < 100 \<and> 300 \<le> cursorY h \<and> cursorY h \<le> 340"

subsection \<open>Update of src/main.go\<close>

text \<open>
  \<^verbatim>\<open>math.Pow(b, e)\<close> is \<open>b powr e\<close> for a positive base \<open>b\<close>; the base here is
  \<^verbatim>\<open>1 + g.zoomSpeed\<close>. \<^verbatim>\<open>Update\<close> always returns the error \<^verbatim>\<open>nil\<close>, so the model
  returns the new state only.

  The zoom update is computed on the reals. When \<^verbatim>\<open>math.Pow\<close> overflows to \<open>+Inf\<close> the code
  still agrees with the model for a zoom in \<open>[1, 10\<^sup>15]\<close> (\<^verbatim>\<open>math.Min\<close> clamps the infinite
  product to \<open>10\<^sup>15\<close>), but for \<^verbatim>\<open>zoom = 0\<close>, the value in the literal of \<^verbatim>\<open>main\<close>, the
  code computes \<open>0 * +Inf = NaN\<close>, which \<^verbatim>\<open>math.Min\<close> and \<^verbatim>\<open>math.Max\<close> return unchanged,
  where the model computes \<open>0\<close> and clamps it to \<open>1\<close>. With a zoom speed in \<open>[0, 0.5]\<close> the
  power overflows only for an elapsed time above 1750 seconds.
\<close>

definition Update0 :: "Host \<Rightarrow> Game0 \<Rightarrow> Game0" where
  "Update0 h g =
     (let elapsed = now h - lastUpdate g;
          g1 = g\<lparr>lastUpdate := now h\<rparr>;
          g2 = (if leftPressed h
                then (if cursorX h < 100
                      then (if cursorY h \<ge> 70 \<and> cursorY h \<le> 270
                            then g1\<lparr>zoomSpeed := (real_of_int (cursorY h - 70) / 200) * 0.5\<rparr>
                            else g1)
                      else g1)
                else g1);
          g3 = g2\<lparr>zoom := zoom g2 * ((1 + zoomSpeed g2) powr elapsed)\<rparr>
      in g3\<lparr>zoom := max 1 (min (zoom g3) (10 ^ 15))\<rparr>)"

subsection \<open>toggleFractal and Update of src/unnamed/part_000\<close>

definition toggleFractal :: "Game \<Rightarrow> Game" where
  "toggleFractal g =
     (let g1 = g\<lparr>fractalType := (fractalType g + 1) smod 2\<rparr>
      in if fractalType g1 = FractalJulia
         then g1\<lparr>juliaX := centerX g1, juliaY := centerY g1\<rparr>
         else g1)"

definition Update :: "Host \<Rightarrow> Game \<Rightarrow> Game" where
  "Update h g =
     (let elapsed = now h - lastUpdate g;
          g1 = g\<lparr>lastUpdate := now h\<rparr>;
          g2 = (if leftPressed h
                then (if cursorX h < 100
                      then (if cursorY h \<ge> 70 \<and> cursorY h \<le> 270
                            then g1\<lparr>zoomSpeed := (real_of_int (cursorY h - 70) / 200) * 0.5\<rparr>
                            else if cursorY h \<ge> 300 \<and> cursorY h \<le> 340
                            then toggleFractal g1
                            else g1)
                      else g1)
                else g1);
          g3 = g2\<lparr>zoom := zoom g2 * ((1 + zoomSpeed g2) powr elapsed)\<rparr>
      in g3\<lparr>zoom := max 1 (min (zoom g3) (10 ^ 15))\<rparr>)"

subsection \<open>The initial state and the frame loop\<close>

text \<open>
  The \<^verbatim>\<open>Game\<close> literal of \<^verbatim>\<open>main\<close>; the parameter is the value of \<^verbatim>\<open>time.Now()\<close>.
  In \<^verbatim>\<open>part_000\<close> \<^verbatim>\<open>fractalType\<close> is not listed and has Go's zero value.
\<close>

definition main0 :: "real \<Rightarrow> Game0" where
  "main0 t0 =
     \<lparr>minX = - 2.5, maxX = 1.0, minY = - 1.5, maxY = 1.5,
      centerX = - 0.7445398603559083806, centerY = 0.1217237738944248242,
      zoom = 0.0, zoomSpeed = 0.01, lastUpdate = t0\<rparr>"

definition main :: "real \<Rightarrow> Game" where
  "main t0 =
     \<lparr>minX = - 2.5, maxX = 1.0, minY = - 1.5, maxY = 1.5,
      centerX = 0.42884, centerY = - 0.231345,
      zoom = 0.0, zoomSpeed = 0.01, lastUpdate = t0,
      juliaX = 0.0, juliaY = 0.0, fractalType = 0\<rparr>"


fun run :: "Host list \<Rightarrow> Game \<Rightarrow> Game" where
  "run [] g = g"
| "run (h # hs) g = run hs (Update h g)"

subsection \<open>The colour of one point in Draw\<close>

text \<open>
  The body of the pixel loop of \<^verbatim>\<open>Draw\<close>, from the plane point \<^verbatim>\<open>(cx, cy)\<close> on:
  \<^verbatim>\<open>main.go\<close> has \<^verbatim>\<open>maxIter := 100\<close> and calls \<^verbatim>\<open>mandelbrot\<close>; \<^verbatim>\<open>part_000\<close> has
  \<^verbatim>\<open>maxIter := 200\<close> and a \<^verbatim>\<open>switch\<close> on \<^verbatim>\<open>g.fractalType\<close> with no default case, so
  that \<^verbatim>\<open>iterations\<close> keeps its zero value for any other kind.
\<close>

definition Draw_color0 :: "real \<Rightarrow> real \<Rightarrow> go_panic + RGBA" where
  "Draw_color0 cx cy =
     (let maxIter = 100;
          iterations = mandelbrot cx cy maxIter
      in getColor (go_int iterations) maxIter)"

definition Draw_color :: "Game \<Rightarrow> real \<Rightarrow> real \<Rightarrow> go_panic + RGBA" where
  "Draw_color g cx cy =
     (let maxIter = 200;
          iterations =
            (if fractalType g = FractalMandelbrot then mandelbrot cx cy maxIter
             else if fractalType g = FractalJulia then julia cx cy (juliaX g) (juliaY g) maxIter
             else 0)
      in getColor (go_int iterations) maxIter)"

section \<open>Non-finite values\<close>

text \<open>
  A second, finer model of the evaluators for the values a \<^verbatim>\<open>float64\<close> has beyond the
  reals: \<open>+Inf\<close>, \<open>-Inf\<close> and NaN. The operations follow IEEE 754 and the special cases
  documented for \<^verbatim>\<open>math.Log\<close> on those values and are exact on finite ones; rounding,
  overflow of finite values and the sign of zero are not modelled (a division by zero
  takes the zero as positive).
\<close>

datatype float64 = Fin real | PInf | NInf | NaN

fun f64_neg :: "float64 \<Rightarrow> float64" where
  "f64_neg (Fin a) = Fin (- a)"
| "f64_neg PInf = NInf"
| "f64_neg NInf = PInf"
| "f64_neg NaN = NaN"

fun f64_add :: "float64 \<Rightarrow> float64 \<Rightarrow> float64" where
  "f64_add (Fin a) (Fin b) = Fin (a + b)"
| "f64_add (Fin a) PInf = PInf"
| "f64_add (Fin a) NInf = NInf"
| "f64_add PInf (Fin b) = PInf"
| "f64_add PInf PInf = PInf"
| "f64_add PInf NInf = NaN"
| "f64_add NInf (Fin b) = NInf"
| "f64_add NInf PInf = NaN"
| "f64_add NInf NInf = NInf"
| "f64_add NaN b = NaN"
| "f64_add a NaN = NaN"

definition f64_sub :: "float64 \<Rightarrow> float64 \<Rightarrow> float64" where
  "f64_sub a b = f64_add a (f64_neg b)"

definition signed_inf :: "bool \<Rightarrow> float64" where
  "signed_inf positive = (if positive then PInf else NInf)"

fun f64_mul :: "float64 \<Rightarrow> float64 \<Rightarrow> float64" where
  "f64_mul (Fin a) (Fin b) = Fin (a * b)"
| "f64_mul (Fin a) PInf = (if a = 0 then NaN else signed_inf (0 < a))"
| "f64_mul (Fin a) NInf = (if a = 0 then NaN else signed_inf (a < 0))"
| "f64_mul PInf (Fin b) = (if b = 0 then NaN else signed_inf (0 < b))"
| "f64_mul NInf (Fin b) = (if b = 0 then NaN else signed_inf (b < 0))"
| "f64_mul PInf PInf = PInf"
| "f64_mul PInf NInf = NInf"
| "f64_mul NInf PInf = NInf"
| "f64_mul NInf NInf = PInf"
| "f64_mul NaN b = NaN"
| "f64_mul a NaN = NaN"

fun f64_div :: "float64 \<Rightarrow> float64 \<Rightarrow> float64" where
  "f64_div (Fin a) (Fin b) =
     (if b = 0 then (if a = 0 then NaN else signed_inf (0 < a)) else Fin (a / b))"
| "f64_div (Fin a) PInf = Fin 0"
| "f64_div (Fin a) NInf = Fin 0"
| "f64_div PInf (Fin b) = signed_inf (0 \<le> b)"
| "f64_div NInf (Fin b) = signed_inf (b < 0)"
| "f64_div PInf PInf = NaN"
| "f64_div PInf NInf = NaN"
| "f64_div NInf PInf = NaN"
| "f64_div NInf NInf = NaN"
| "f64_div NaN b = NaN"
| "f64_div a NaN = NaN"

text \<open>Comparison \<^verbatim>\<open><=\<close>: false as soon as one side is NaN.\<close>

fun f64_le :: "float64 \<Rightarrow> float64 \<Rightarrow> bool" where
  "f64_le (Fin a) (Fin b) = (a \<le> b)"
| "f64_le (Fin a) PInf = True"
| "f64_le (Fin a) NInf = False"
| "f64_le PInf (Fin b) = False"
| "f64_le PInf PInf = True"
| "f64_le PInf NInf = False"
| "f64_le NInf (Fin b) = True"
| "f64_le NInf PInf = True"
| "f64_le NInf NInf = True"
| "f64_le NaN b = False"
| "f64_le a NaN = False"

text \<open>
  \<^verbatim>\<open>math.Log\<close>: \<^verbatim>\<open>Log(+Inf) = +Inf\<close>, \<^verbatim>\<open>Log(0) = -Inf\<close>, \<^verbatim>\<open>Log(x < 0) = NaN\<close>,
  \<^verbatim>\<open>Log(NaN) = NaN\<close>.
\<close>

fun math_Log :: "float64 \<Rightarrow> float64" where
  "math_Log (Fin a) = (if a < 0 then NaN else if a = 0 then NInf else Fin (ln a))"
| "math_Log PInf = PInf"
| "math_Log NInf = NaN"
| "math_Log NaN = NaN"

text \<open>The same source text as \<open>mandelbrot\<close> and \<open>julia\<close>, on \<^typ>\<open>float64\<close>.\<close>

function mandelbrot_f64_loop ::
  "float64 \<Rightarrow> float64 \<Rightarrow> int \<Rightarrow> float64 \<Rightarrow> float64 \<Rightarrow> int \<Rightarrow> float64 \<times> float64 \<times> int" where
  "mandelbrot_f64_loop cx cy maxIter x y iteration =
     (if f64_le (f64_add (f64_mul x x) (f64_mul y y)) (Fin 4) \<and> iteration < maxIter
      then (let xTemp = f64_add (f64_sub (f64_mul x x) (f64_mul y y)) cx;
                y' = f64_add (f64_mul (f64_mul (Fin 2) x) y) cy
            in mandelbrot_f64_loop cx cy maxIter xTemp y' (iteration + 1))
      else (x, y, iteration))"
  by pat_completeness auto
termination
  by (relation "measure (\<lambda>(cx, cy, maxIter, x, y, iteration). nat (maxIter - iteration))") auto

declare mandelbrot_f64_loop.simps [simp del]

definition mandelbrot_f64 :: "float64 \<Rightarrow> float64 \<Rightarrow> int \<Rightarrow> float64" where
  "mandelbrot_f64 cx cy maxIter =
     (case mandelbrot_f64_loop cx cy maxIter (Fin 0) (Fin 0) 0 of
        (x, y, iteration) \<Rightarrow>
          if iteration < maxIter
          then (let logZn = f64_div (math_Log (f64_add (f64_mul x x) (f64_mul y y))) (Fin 2)
                in f64_sub (f64_add (Fin (real_of_int iteration)) (Fin 1))
                     (f64_div (math_Log logZn) (math_Log (Fin 2))))
          else Fin (real_of_int maxIter))"

function julia_f64_loop ::
  "float64 \<Rightarrow> float64 \<Rightarrow> int \<Rightarrow> float64 \<Rightarrow> float64 \<Rightarrow> int \<Rightarrow> float64 \<times> float64 \<times> int" where
  "julia_f64_loop cx cy maxIter x y iteration =
     (if f64_le (f64_add (f64_mul x x) (f64_mul y y)) (Fin 4) \<and> iteration < maxIter
      then (let xTemp = f64_add (f64_sub (f64_mul x x) (f64_mul y y)) cx;
                y' = f64_add (f64_mul (f64_mul (Fin 2) x) y) cy
            in julia_f64_loop cx cy maxIter xTemp y' (iteration + 1))
      else (x, y, iteration))"
  by pat_completeness auto
termination
  by (relation "measure (\<lambda>(cx, cy, maxIter, x, y, iteration). nat (maxIter - iteration))") auto

declare julia_f64_loop.simps [simp del]

definition julia_f64 :: "float64 \<Rightarrow> float64 \<Rightarrow> float64 \<Rightarrow> float64 \<Rightarrow> int \<Rightarrow> float64" where
  "julia_f64 x y cx cy maxIter =
     (case julia_f64_loop cx cy maxIter x y 0 of
        (x', y', iteration) \<Rightarrow>
          if iteration < maxIter
          then (let logZn = f64_div (math_Log (f64_add (f64_mul x' x') (f64_mul y' y'))) (Fin 2)
                in f64_sub (f64_add (Fin (real_of_int iteration)) (Fin 1))
                     (f64_div (math_Log logZn) (math_Log (Fin 2))))
          else Fin (real_of_int maxIter))"

text \<open>
  The conversion \<^verbatim>\<open>int(f)\<close>: when the value cannot be represented by \<^verbatim>\<open>int\<close> (NaN, an
  infinity, or a truncation outside 64 bits) the Go specification leaves the result
  implementation-dependent; the parameter \<open>u\<close> is that result.
\<close>

definition go_int_f64 :: "int \<Rightarrow> float64 \<Rightarrow> int" where
  "go_int_f64 u f =
     (case f of
        Fin a \<Rightarrow> if - (2 ^ 63) \<le> go_int a \<and> go_int a < 2 ^ 63 then go_int a else u
      | _ \<Rightarrow> u)"

text \<open>
  The colour of one point in \<^verbatim>\<open>Draw\<close>, as above; the fields of \<^verbatim>\<open>g\<close> that the loop body
  of \<^verbatim>\<open>part_000\<close> reads (\<^verbatim>\<open>fractalType\<close>, \<^verbatim>\<open>juliaX\<close>, \<^verbatim>\<open>juliaY\<close>) are parameters.
\<close>

definition Draw_color0_f64 :: "int \<Rightarrow> float64 \<Rightarrow> float64 \<Rightarrow> go_panic + RGBA" where
  "Draw_color0_f64 u cx cy =
     (let maxIter = 100;
          iterations = mandelbrot_f64 cx cy maxIter
      in getColor (go_int_f64 u iterations) maxIter)"

definition Draw_color_f64 ::
  "int \<Rightarrow> int \<Rightarrow> float64 \<Rightarrow> float64 \<Rightarrow> float64 \<Rightarrow> float64 \<Rightarrow> go_panic + RGBA" where
  "Draw_color_f64 u kind jx jy cx cy =
     (let maxIter = 200;
          iterations =
            (if kind = FractalMandelbrot then mandelbrot_f64 cx cy maxIter
             else if kind = FractalJulia then julia_f64 cx cy jx jy maxIter
             else Fin 0)
      in getColor (go_int_f64 u iterations) maxIter)"

section \<open>Properties of the evaluators\<close>

lemma julia_loop_eq_mandelbrot_loop:
  "julia_loop cx cy maxIter x y iteration = mandelbrot_loop cx cy maxIter x y iteration"
proof (induction cx cy maxIter x y iteration rule: mandelbrot_loop.induct)
  case (1 cx cy maxIter x y iteration)
  show ?case
  proof (cases "x * x + y * y \<le> 4 \<and> iteration < maxIter")
    case True
    have "julia_loop cx cy maxIter x y iteration
        = julia_loop cx cy maxIter (x * x - y * y + cx) (2 * x * y + cy) (iteration + 1)"
      using True by (subst julia_loop.simps) (simp add: Let_def)
    also have "\<dots> = mandelbrot_loop cx cy maxIter (x * x - y * y + cx) (2 * x * y + cy) (iteration + 1)"
      using "1.IH" [OF True refl refl] .
    also have "\<dots> = mandelbrot_loop cx cy maxIter x y iteration"
      using True by (subst (2) mandelbrot_loop.simps) (simp add: Let_def)
    finally show ?thesis .
  next
    case False
    then show ?thesis
      by (subst julia_loop.simps, subst mandelbrot_loop.simps) auto
  qed
qed

text \<open>
  At the origin the orbit stays at \<open>(0, 0)\<close>, so the loop only stops when the counter
  reaches \<^verbatim>\<open>maxIter\<close>.
\<close>

lemma mandelbrot_loop_origin:
  "iteration \<le> maxIter \<Longrightarrow> mandelbrot_loop 0 0 maxIter 0 0 iteration = (0, 0, maxIter)"
proof (induction "nat (maxIter - iteration)" arbitrary: iteration)
  case 0
  then have "iteration = maxIter" by simp
  then show ?case by (subst mandelbrot_loop.simps) simp
next
  case (Suc n)
  then have lt: "iteration < maxIter" and n: "n = nat (maxIter - (iteration + 1))"
    by linarith+
  have "mandelbrot_loop 0 0 maxIter 0 0 iteration = mandelbrot_loop 0 0 maxIter 0 0 (iteration + 1)"
    using lt by (subst mandelbrot_loop.simps) simp
  also have "\<dots> = (0, 0, maxIter)"
    using Suc.hyps(1) [OF n] lt by simp
  finally show ?case .
qed

text \<open>
  Claim C7. For every \<^verbatim>\<open>maxIter\<close> \<open>N \<ge> 0\<close>, \<^verbatim>\<open>mandelbrot(0, 0, N)\<close> returns exactly \<open>N\<close>:
  the origin never escapes and is reported as an interior point.
\<close>

theorem mandelbrot_origin:
  "0 \<le> N \<Longrightarrow> mandelbrot 0 0 N = real_of_int N"
  by (simp add: mandelbrot_def mandelbrot_loop_origin)

theorem mandelbrot_origin_witness:
  "(0::int) \<le> 100 \<and> mandelbrot 0 0 100 = 100 \<and> mandelbrot 0 0 0 = 0"
  using mandelbrot_origin [of 100] mandelbrot_origin [of 0] by simp

text \<open>
  Claim C10. For every point \<open>(cx, cy)\<close> and every \<^verbatim>\<open>maxIter\<close>, the Julia evaluator started
  at the origin with constant \<open>(cx, cy)\<close> returns the same value as the Mandelbrot evaluator
  at \<open>(cx, cy)\<close>: \<^verbatim>\<open>julia(0, 0, cx, cy, m) = mandelbrot(cx, cy, m)\<close>.
\<close>

theorem julia_origin_eq_mandelbrot:
  "julia 0 0 cx cy m = mandelbrot cx cy m"
  by (simp add: julia_def mandelbrot_def julia_loop_eq_mandelbrot_loop)

subsection \<open>The range of the escape value\<close>

lemma ln2_pos: "0 < ln (2::real)"
  by simp

lemma ln2_ge_half: "1 / 2 \<le> ln (2::real)"
proof -
  have "exp (1 / 2) \<le> (2::real)" by (rule exp_half_le2)
  then have "ln (exp (1 / 2 :: real)) \<le> ln 2"
    by (subst ln_le_cancel_iff) simp_all
  then show ?thesis by simp
qed

lemma ln4: "ln (4::real) = 2 * ln 2"
proof -
  have "ln ((2::real) ^ 2) = real 2 * ln 2" by (rule ln_realpow)
  then show ?thesis by simp
qed

text \<open>The smoothing term \<open>ln (ln m / 2) / ln 2\<close> for an escaped point, \<open>m > 4\<close>.\<close>

lemma logZn_gt:
  assumes "4 < (m::real)"
  shows "ln 2 < ln m / 2"
proof -
  have "ln 4 < ln m" using assms by (subst ln_less_cancel_iff) simp_all
  then show ?thesis by (simp add: ln4)
qed

lemma smooth_gt_minus_one:
  assumes "4 < (m::real)"
  shows "- 1 < ln (ln m / 2) / ln 2"
proof -
  have L: "1 / 2 < ln m / 2" using logZn_gt [OF assms] ln2_ge_half by linarith
  then have "ln (1 / 2 :: real) < ln (ln m / 2)"
    by (subst ln_less_cancel_iff) simp_all
  moreover have "ln (1 / 2 :: real) = - ln 2"
    by (simp add: ln_div)
  ultimately have "- ln 2 < ln (ln m / 2)" by simp
  then have "(- ln 2) / ln 2 < ln (ln m / 2) / ln 2"
    using ln2_pos by (simp only: divide_strict_right_mono)
  then show ?thesis by simp
qed

lemma smooth_le:
  assumes "4 < (m::real)" and "m \<le> 2 ^ (2 * k)" and "0 < k"
  shows "ln (ln m / 2) / ln 2 \<le> ln (real k) / ln 2"
proof -
  have "ln m \<le> ln ((2::real) ^ (2 * k))"
    using assms by (subst ln_le_cancel_iff) simp_all
  also have "\<dots> = real (2 * k) * ln 2"
    by (rule ln_realpow)
  also have "\<dots> \<le> real (2 * k) * 1"
    using ln_2_less_1 by (intro mult_left_mono) simp_all
  finally have "ln m / 2 \<le> real k" by simp
  moreover have "0 < ln m / 2"
    using logZn_gt [OF assms(1)] ln2_pos by linarith
  ultimately have "ln (ln m / 2) \<le> ln (real k)"
    using assms(3) by (subst ln_le_cancel_iff) simp_all
  then show ?thesis
    using ln2_pos by (simp only: divide_right_mono less_imp_le)
qed

lemma smooth_le_1:
  assumes "4 < (m::real)" and "m \<le> 16"
  shows "ln (ln m / 2) / ln 2 \<le> 1"
  using smooth_le [of m 2] assms by simp

lemma smooth_le_2:
  assumes "4 < (m::real)" and "m \<le> 256"
  shows "ln (ln m / 2) / ln 2 \<le> 2"
  using smooth_le [of m 4] assms by (simp add: ln4)

text \<open>One step of the orbit from a point inside the disc of radius 2.\<close>

lemma step_bound:
  fixes x y cx cy :: real
  assumes "x * x + y * y \<le> 4" and "cx * cx + cy * cy \<le> 100"
  shows "(x * x - y * y + cx) * (x * x - y * y + cx) + (2 * x * y + cy) * (2 * x * y + cy) \<le> 196"
proof -
  define a where "a = x * x - y * y"
  define b where "b = 2 * x * y"
  define P where "P = a * cx + b * cy"
  define Q where "Q = a * a + b * b"
  define C where "C = cx * cx + cy * cy"
  have "Q = (x * x + y * y) * (x * x + y * y)"
    by (simp add: Q_def a_def b_def algebra_simps)
  also have "\<dots> \<le> 4 * 4"
    using assms(1) by (intro mult_mono) (auto intro: add_nonneg_nonneg)
  finally have Q: "Q \<le> 16" by simp
  have C: "C \<le> 100" using assms(2) by (simp add: C_def)
  have "0 \<le> (5 * a - 2 * cx) * (5 * a - 2 * cx) + (5 * b - 2 * cy) * (5 * b - 2 * cy)"
    by (intro add_nonneg_nonneg) simp_all
  also have "\<dots> = 25 * Q + 4 * C - 20 * P"
    by (simp add: P_def Q_def C_def algebra_simps)
  finally have P: "20 * P \<le> 25 * Q + 4 * C" by simp
  have "(a + cx) * (a + cx) + (b + cy) * (b + cy) = Q + 2 * P + C"
    by (simp add: P_def Q_def C_def algebra_simps)
  also have "\<dots> \<le> 196"
    using P Q C by linarith
  finally show ?thesis by (simp add: a_def b_def)
qed

lemma mandelbrot_loop_result:
  "mandelbrot_loop cx cy maxIter x y i = (x', y', n) \<Longrightarrow>
     (n < maxIter \<longrightarrow> 4 < x' * x' + y' * y') \<and> i \<le> n
     \<and> (n = i \<and> x' = x \<and> y' = y
         \<or> i < n \<and> (cx * cx + cy * cy \<le> 100 \<longrightarrow> x' * x' + y' * y' \<le> 196))"
proof (induction cx cy maxIter x y i rule: mandelbrot_loop.induct)
  case (1 cx cy maxIter x y i)
  show ?case
  proof (cases "x * x + y * y \<le> 4 \<and> i < maxIter")
    case True
    let ?x = "x * x - y * y + cx" and ?y = "2 * x * y + cy"
    have "mandelbrot_loop cx cy maxIter x y i = mandelbrot_loop cx cy maxIter ?x ?y (i + 1)"
      using True by (subst mandelbrot_loop.simps) (simp add: Let_def)
    then have r: "mandelbrot_loop cx cy maxIter ?x ?y (i + 1) = (x', y', n)"
      using "1.prems" by simp
    note ih = "1.IH" [OF True refl refl r]
    have "cx * cx + cy * cy \<le> 100 \<Longrightarrow> ?x * ?x + ?y * ?y \<le> 196"
      using True by (intro step_bound) simp_all
    then show ?thesis using ih by auto
  next
    case False
    then have "mandelbrot_loop cx cy maxIter x y i = (x, y, i)"
      by (subst mandelbrot_loop.simps) auto
    then have "x' = x" "y' = y" "n = i" using "1.prems" by simp_all
    then show ?thesis using False by auto
  qed
qed

lemma smoothing_less:
  assumes "n < maxIter" and "4 < (m::real)"
  shows "real_of_int n + 1 - ln (ln m / 2) / ln 2 < real_of_int maxIter + 1"
proof -
  have "real_of_int n + 1 \<le> real_of_int maxIter" using assms(1) by linarith
  then show ?thesis using smooth_gt_minus_one [OF assms(2)] by linarith
qed

lemma mandelbrot_less: "mandelbrot cx cy maxIter < real_of_int maxIter + 1"
proof -
  obtain x' y' n where r: "mandelbrot_loop cx cy maxIter 0 0 0 = (x', y', n)"
    by (cases "mandelbrot_loop cx cy maxIter 0 0 0") auto
  show ?thesis
  proof (cases "n < maxIter")
    case True
    then have "4 < x' * x' + y' * y'" using mandelbrot_loop_result [OF r] by simp
    from smoothing_less [OF True this] show ?thesis
      using True by (simp add: mandelbrot_def r Let_def)
  next
    case False
    then show ?thesis by (simp add: mandelbrot_def r)
  qed
qed

lemma julia_less: "julia x y cx cy maxIter < real_of_int maxIter + 1"
proof -
  obtain x' y' n where r: "mandelbrot_loop cx cy maxIter x y 0 = (x', y', n)"
    by (cases "mandelbrot_loop cx cy maxIter x y 0") auto
  show ?thesis
  proof (cases "n < maxIter")
    case True
    then have "4 < x' * x' + y' * y'" using mandelbrot_loop_result [OF r] by simp
    from smoothing_less [OF True this] show ?thesis
      using True by (simp add: julia_def julia_loop_eq_mandelbrot_loop r Let_def)
  next
    case False
    then show ?thesis by (simp add: julia_def julia_loop_eq_mandelbrot_loop r)
  qed
qed

lemma julia_nonneg:
  assumes "0 \<le> maxIter" and "cx * cx + cy * cy \<le> 100" and "x * x + y * y \<le> 16"
  shows "0 \<le> julia x y cx cy maxIter"
proof -
  obtain x' y' n where r: "mandelbrot_loop cx cy maxIter x y 0 = (x', y', n)"
    by (cases "mandelbrot_loop cx cy maxIter x y 0") auto
  note res = mandelbrot_loop_result [OF r]
  show ?thesis
  proof (cases "n < maxIter")
    case True
    then have esc: "4 < x' * x' + y' * y'" using res by simp
    have "ln (ln (x' * x' + y' * y') / 2) / ln 2 \<le> real_of_int n + 1"
    proof (cases "n = 0")
      case True
      then have "x' * x' + y' * y' \<le> 16" using res assms(3) by auto
      from smooth_le_1 [OF esc this] True show ?thesis by simp
    next
      case False
      then have "1 \<le> n" "x' * x' + y' * y' \<le> 256" using res assms(2) by auto
      from smooth_le_2 [OF esc this(2)] this(1) show ?thesis by linarith
    qed
    then show ?thesis
      using True by (simp add: julia_def julia_loop_eq_mandelbrot_loop r Let_def)
  next
    case False
    then show ?thesis using assms(1) by (simp add: julia_def julia_loop_eq_mandelbrot_loop r)
  qed
qed

lemma mandelbrot_nonneg:
  assumes "0 \<le> maxIter" and "cx * cx + cy * cy \<le> 100"
  shows "0 \<le> mandelbrot cx cy maxIter"
proof -
  have "0 \<le> julia 0 0 cx cy maxIter"
    using assms by (intro julia_nonneg) simp_all
  moreover have "julia 0 0 cx cy maxIter = mandelbrot cx cy maxIter"
    by (simp add: julia_def mandelbrot_def julia_loop_eq_mandelbrot_loop)
  ultimately show ?thesis by simp
qed

text \<open>Numeric bounds on the exponential.\<close>

lemma exp_2_gt_5: "5 < exp (2::real)"
proof -
  have "(3 / 2 :: real) \<le> exp (1 / 2)"
    using exp_ge_add_one_self [of "1 / 2 :: real"] by simp
  then have "(3 / 2 :: real) ^ 4 \<le> exp (1 / 2) ^ 4"
    by (intro power_mono) simp_all
  moreover have "exp (1 / 2 :: real) ^ 4 = exp 2"
    using exp_of_nat_mult [of 4 "1 / 2 :: real"] by simp
  ultimately have "(3 / 2 :: real) ^ 4 \<le> exp 2" by simp
  moreover have "(5::real) < (3 / 2) ^ 4" by (simp add: power_divide)
  ultimately show ?thesis by linarith
qed

lemma exp_2_less_8: "exp (2::real) < 8"
proof -
  have "exp (1 / 16 :: real) \<le> 1 + 1 / 16 + (1 / 16)\<^sup>2"
    by (rule exp_bound) simp_all
  then have "exp (1 / 16 :: real) \<le> 273 / 256"
    by (simp add: power2_eq_square)
  then have "exp (1 / 16 :: real) ^ 32 \<le> (273 / 256) ^ 32"
    by (intro power_mono) simp_all
  moreover have "exp (1 / 16 :: real) ^ 32 = exp 2"
    using exp_of_nat_mult [of 32 "1 / 16 :: real"] by simp
  moreover have "(273 / 256 :: real) ^ 32 < 8"
    by (simp add: power_divide)
  ultimately show ?thesis by linarith
qed

lemma exp_8_less: "exp (8::real) < 10000"
proof -
  have "exp (1::real) ^ 8 \<le> 3 ^ 8"
    using exp_le by (intro power_mono) simp_all
  moreover have "exp (1::real) ^ 8 = exp 8"
    using exp_of_nat_mult [of 8 "1::real"] by simp
  ultimately show ?thesis by simp
qed

lemma ln_5_less_2: "ln (5::real) < 2"
proof -
  have "ln (5::real) < ln (exp 2)"
    using exp_2_gt_5 by (subst ln_less_cancel_iff) simp_all
  then show ?thesis by simp
qed

lemma ln_8_gt_2: "2 < ln (8::real)"
proof -
  have "ln (exp 2) < ln (8::real)"
    using exp_2_less_8 by (subst ln_less_cancel_iff) simp_all
  then show ?thesis by simp
qed

lemma ln_10000_gt_8: "8 < ln (10000::real)"
proof -
  have "ln (exp 8) < ln (10000::real)"
    using exp_8_less by (subst ln_less_cancel_iff) simp_all
  then show ?thesis by simp
qed

text \<open>Concrete runs of the loop.\<close>

lemma mandelbrot_loop_one_step:
  assumes "0 < maxIter" and "4 < cx * cx + cy * cy"
  shows "mandelbrot_loop cx cy maxIter 0 0 0 = (cx, cy, 1)"
proof -
  have "mandelbrot_loop cx cy maxIter 0 0 0 = mandelbrot_loop cx cy maxIter cx cy 1"
    using assms(1) by (subst mandelbrot_loop.simps) simp
  also have "\<dots> = (cx, cy, 1)"
    using assms(2) by (subst mandelbrot_loop.simps) simp
  finally show ?thesis .
qed

lemma mandelbrot_2_2_1: "mandelbrot 2 2 1 = 1"
  by (simp add: mandelbrot_def mandelbrot_loop_one_step)

lemma mandelbrot_2_2:
  assumes "2 \<le> N"
  shows "mandelbrot 2 2 N = 2 - ln (ln 8 / 2) / ln 2"
  using assms by (simp add: mandelbrot_def mandelbrot_loop_one_step)

lemma mandelbrot_2_2_less:
  assumes "2 \<le> N"
  shows "mandelbrot 2 2 N < 2"
proof -
  have "1 < ln (8::real) / 2" using ln_8_gt_2 by simp
  then have "0 < ln (ln (8::real) / 2)" by simp
  then have "0 < ln (ln (8::real) / 2) / ln 2" by simp
  then show ?thesis by (simp add: mandelbrot_2_2 [OF assms])
qed

lemma mandelbrot_2_1_2: "mandelbrot 2 1 2 = 2 - ln (ln 5 / 2) / ln 2"
  by (simp add: mandelbrot_def mandelbrot_loop_one_step)

lemma mandelbrot_2_1_2_gt: "2 < mandelbrot 2 1 2"
proof -
  have "ln (5::real) / 2 < 1" using ln_5_less_2 by simp
  moreover have "0 < ln (5::real) / 2" by simp
  ultimately have "ln (ln (5::real) / 2) < 0" by simp
  then have "ln (ln (5::real) / 2) / ln 2 < 0"
    by (simp add: divide_neg_pos)
  then show ?thesis by (simp add: mandelbrot_2_1_2)
qed

lemma mandelbrot_100_0_2: "mandelbrot 100 0 2 = 2 - ln (ln 10000 / 2) / ln 2"
  by (simp add: mandelbrot_def mandelbrot_loop_one_step)

lemma mandelbrot_100_0_2_neg: "mandelbrot 100 0 2 < 0"
proof -
  have "4 < ln (10000::real) / 2" using ln_10000_gt_8 by simp
  then have "ln (4::real) < ln (ln (10000::real) / 2)"
    by (subst ln_less_cancel_iff) simp_all
  then have "2 * ln 2 < ln (ln (10000::real) / 2)" by (simp add: ln4)
  then have "2 < ln (ln (10000::real) / 2) / ln 2"
    by (simp add: pos_less_divide_eq)
  then show ?thesis by (simp add: mandelbrot_100_0_2)
qed

text \<open>
  Claim C1 says that for every \<^verbatim>\<open>maxIter \<ge> 1\<close> and every input the evaluators return a
  value in \<open>[0, maxIter]\<close>. Both bounds fail: \<^verbatim>\<open>mandelbrot(2, 1, 2)\<close> escapes at the last
  iteration with \<open>|z|\<^sup>2 = 5\<close> and returns \<open>2 - log\<^sub>2 (ln 5 / 2) > 2\<close>, and
  \<^verbatim>\<open>mandelbrot(100, 0, 2)\<close> escapes with \<open>|z|\<^sup>2 = 10000\<close> and returns a negative value.
\<close>

theorem evaluate_range_counterexample:
  "(1::int) \<le> 2 \<and> real_of_int 2 < mandelbrot 2 1 2 \<and> mandelbrot 100 0 2 < 0"
  using mandelbrot_2_1_2_gt mandelbrot_100_0_2_neg by simp

text \<open>
  Claim C1, amended. For every \<^verbatim>\<open>maxIter\<close> and every finite input point (and, for Julia,
  every finite constant), computed exactly, the evaluators return a value strictly below
  \<^verbatim>\<open>maxIter + 1\<close>. For
  \<^verbatim>\<open>maxIter \<ge> 0\<close> the value is at least \<open>0\<close> when the added constant satisfies
  \<open>cx\<^sup>2 + cy\<^sup>2 \<le> 100\<close> and, for Julia, the starting point satisfies \<open>x\<^sup>2 + y\<^sup>2 \<le> 16\<close>.
\<close>

theorem evaluate_range_amended:
  "mandelbrot cx cy m < real_of_int m + 1
   \<and> julia x y cx cy m < real_of_int m + 1
   \<and> (0 \<le> m \<and> cx * cx + cy * cy \<le> 100 \<longrightarrow> 0 \<le> mandelbrot cx cy m)
   \<and> (0 \<le> m \<and> cx * cx + cy * cy \<le> 100 \<and> x * x + y * y \<le> 16 \<longrightarrow> 0 \<le> julia x y cx cy m)"
  using mandelbrot_less [of cx cy m] julia_less [of x y cx cy m]
    mandelbrot_nonneg [of m cx cy] julia_nonneg [of m cx cy x y]
  by blast

theorem evaluate_range_amended_witness:
  "(0::int) \<le> 2 \<and> (2::real) * 2 + 1 * 1 \<le> 100 \<and> (1::real) * 1 + 1 * 1 \<le> 16
   \<and> 0 \<le> mandelbrot 2 1 2 \<and> mandelbrot 2 1 2 < 3
   \<and> 0 \<le> julia 1 1 2 1 2 \<and> julia 1 1 2 1 2 < 3"
  using evaluate_range_amended [of 2 1 2 1 1] by simp

text \<open>
  Claim C2 says that \<^verbatim>\<open>mandelbrot(2, 2, N)\<close> is strictly less than \<open>N\<close> for every
  \<open>N \<ge> 1\<close>. With \<open>N = 1\<close> the single iteration uses up the budget before the escape
  test is made again, and the function returns \<^verbatim>\<open>float64(maxIter) = 1\<close>.
\<close>

theorem mandelbrot_2_2_counterexample:
  "(1::int) \<le> 1 \<and> \<not> mandelbrot 2 2 1 < real_of_int 1"
  by (simp add: mandelbrot_2_2_1)

text \<open>
  Claim C2, amended. For every \<open>N \<ge> 2\<close>, \<^verbatim>\<open>mandelbrot(2, 2, N)\<close> returns
  \<open>2 - log\<^sub>2 (ln 8 / 2)\<close>, which is strictly less than \<open>2\<close> and so than \<open>N\<close>: the point
  escapes after one iteration.
\<close>

theorem mandelbrot_2_2_escapes:
  "2 \<le> N \<Longrightarrow>
     mandelbrot 2 2 N = 2 - ln (ln 8 / 2) / ln 2 \<and> mandelbrot 2 2 N < 2
     \<and> mandelbrot 2 2 N < real_of_int N"
proof -
  assume N: "2 \<le> N"
  then have "(2::real) \<le> real_of_int N" by simp
  then show ?thesis
    using mandelbrot_2_2 [OF N] mandelbrot_2_2_less [OF N] by linarith
qed

theorem mandelbrot_2_2_escapes_witness:
  "(2::int) \<le> 2 \<and> mandelbrot 2 2 2 < real_of_int 2"
  using mandelbrot_2_2_escapes [of 2] by simp

section \<open>Properties of the colour lookup\<close>

lemma length_colorMapping: "length colorMapping = 16"
  by (simp add: colorMapping_def)

lemma go_int_pos_iff: "0 < go_int v \<longleftrightarrow> 1 \<le> v"
  unfolding go_int_def by (auto simp: floor_less_iff not_less le_floor_iff ceiling_less_iff less_ceiling_iff)

lemma go_int_less_iff: "0 \<le> v \<Longrightarrow> go_int v < m \<longleftrightarrow> v < real_of_int m"
  unfolding go_int_def by (simp add: floor_less_iff)

lemma go_int_floor: "0 \<le> v \<Longrightarrow> go_int v = \<lfloor>v\<rfloor>"
  by (simp add: go_int_def)

lemma getColor_in_palette:
  "0 < i \<Longrightarrow> i < m \<Longrightarrow> getColor i m = Inr (colorMapping ! nat (i mod 16))"
  by (simp add: getColor_def length_colorMapping slice_index_def smod_int_alt_def Let_def sgn_if)

lemma getColor_outside:
  "\<not> (0 < i \<and> i < m) \<Longrightarrow> getColor i m = Inr (RGBA 0 0 0 0)"
  by (auto simp: getColor_def)

lemma palette_opaque: "k < 16 \<Longrightarrow> A (colorMapping ! k) = 255"
proof -
  assume "k < 16"
  then have "colorMapping ! k \<in> set colorMapping"
    by (simp add: length_colorMapping)
  moreover have "\<forall>c \<in> set colorMapping. A c = 255"
    by (simp add: colorMapping_def)
  ultimately show ?thesis by blast
qed

lemma getColor_go_int:
  "getColor (go_int v) m =
     (if v < 1 \<or> real_of_int m \<le> v
      then Inr (RGBA 0 0 0 0)
      else Inr (colorMapping ! nat (\<lfloor>v\<rfloor> mod 16)))"
proof (cases "v < 1 \<or> real_of_int m \<le> v")
  case True
  then have "\<not> (0 < go_int v \<and> go_int v < m)"
    using go_int_pos_iff [of v] go_int_less_iff [of v m] by auto
  then show ?thesis using True by (simp add: getColor_outside)
next
  case False
  then have "0 < go_int v" "go_int v < m" "go_int v = \<lfloor>v\<rfloor>"
    using go_int_pos_iff [of v] go_int_less_iff [of v m] go_int_floor [of v] by auto
  then show ?thesis using False getColor_in_palette [of "go_int v" m] by simp
qed

lemma palette_not_reserved: "k < 16 \<Longrightarrow> colorMapping ! k \<noteq> RGBA 0 0 0 0"
  using palette_opaque [of k] by auto

lemma Draw_color0_eq:
  "Draw_color0 cx cy =
     (let v = mandelbrot cx cy 100
      in if v < 1 \<or> 100 \<le> v
         then Inr (RGBA 0 0 0 0)
         else Inr (colorMapping ! nat (\<lfloor>v\<rfloor> mod 16)))"
  by (simp add: Draw_color0_def Let_def getColor_go_int)

lemma Draw_color_eq:
  "Draw_color g cx cy =
     (let v = (if fractalType g = FractalMandelbrot then mandelbrot cx cy 200
               else if fractalType g = FractalJulia then julia cx cy (juliaX g) (juliaY g) 200
               else 0)
      in if v < 1 \<or> 200 \<le> v
         then Inr (RGBA 0 0 0 0)
         else Inr (colorMapping ! nat (\<lfloor>v\<rfloor> mod 16)))"
  by (simp add: Draw_color_def Let_def getColor_go_int)

text \<open>
  Claim C3 says that the colour lookup of an escape value \<open>v\<close> returns the reserved colour
  exactly when \<open>v \<le> 0\<close> or \<open>v \<ge> maxIter\<close>, and \<open>palette[floor(v) mod 16]\<close> for every other
  \<open>v\<close>. For \<open>v = 0.5\<close> and \<^verbatim>\<open>maxIter = 100\<close> the claim gives \<open>palette[0]\<close>, but
  \<^verbatim>\<open>int(0.5) = 0\<close> fails the test \<^verbatim>\<open>iterations > 0\<close> and \<^verbatim>\<open>getColor\<close> returns the
  reserved colour.
\<close>

theorem map_color_counterexample:
  "(0::real) < 1 / 2 \<and> (1 / 2 :: real) < real_of_int 100
   \<and> getColor (go_int (1 / 2)) 100 = Inr (RGBA 0 0 0 0)
   \<and> getColor (go_int (1 / 2)) 100 \<noteq> Inr (colorMapping ! nat (\<lfloor>1 / 2 :: real\<rfloor> mod 16))"
  by (simp add: getColor_go_int colorMapping_def)

text \<open>
  Claim C3, amended. \<^verbatim>\<open>getColor(int(v), maxIter)\<close> returns the reserved colour
  (transparent black) exactly when \<open>v < 1\<close> or \<open>v \<ge> maxIter\<close>, and
  \<open>palette[floor(v) mod 16]\<close> for every other \<open>v\<close>, that is for \<open>1 \<le> v < maxIter\<close>. In
  particular the lookups of \<open>0\<close> and of \<open>100\<close> with \<^verbatim>\<open>maxIter = 100\<close> return the reserved
  colour and the lookup of \<open>5.9\<close> returns \<open>palette[5]\<close>. \<^verbatim>\<open>Draw\<close> applies this lookup to
  the escape value of each point, with \<^verbatim>\<open>maxIter = 100\<close> in \<^verbatim>\<open>main.go\<close> and
  \<^verbatim>\<open>maxIter = 200\<close> in \<^verbatim>\<open>part_000\<close>.
\<close>

theorem map_color_amended:
  "getColor (go_int v) m =
     (if v < 1 \<or> real_of_int m \<le> v
      then Inr (RGBA 0 0 0 0)
      else Inr (colorMapping ! nat (\<lfloor>v\<rfloor> mod 16)))
   \<and> (getColor (go_int v) m = Inr (RGBA 0 0 0 0)) = (v < 1 \<or> real_of_int m \<le> v)
   \<and> getColor (go_int 0) 100 = Inr (RGBA 0 0 0 0)
   \<and> getColor (go_int 100) 100 = Inr (RGBA 0 0 0 0)
   \<and> getColor (go_int 5.9) 100 = Inr (colorMapping ! 5)
   \<and> colorMapping ! 5 = RGBA 12 44 138 255
   \<and> Draw_color0 cx cy =
       (let v = mandelbrot cx cy 100
        in if v < 1 \<or> 100 \<le> v
           then Inr (RGBA 0 0 0 0)
           else Inr (colorMapping ! nat (\<lfloor>v\<rfloor> mod 16)))
   \<and> Draw_color g cx cy =
       (let v = (if fractalType g = FractalMandelbrot then mandelbrot cx cy 200
                 else if fractalType g = FractalJulia then julia cx cy (juliaX g) (juliaY g) 200
                 else 0)
        in if v < 1 \<or> 200 \<le> v
           then Inr (RGBA 0 0 0 0)
           else Inr (colorMapping ! nat (\<lfloor>v\<rfloor> mod 16)))"
proof -
  have "colorMapping ! nat (\<lfloor>v\<rfloor> mod 16) \<noteq> RGBA 0 0 0 0"
    by (rule palette_not_reserved) simp
  moreover have "colorMapping ! 5 = RGBA 12 44 138 255"
    by (simp add: colorMapping_def)
  ultimately show ?thesis
    using Draw_color0_eq [of cx cy] Draw_color_eq [of g cx cy]
    by (simp add: getColor_go_int)
qed

section \<open>Properties of Update\<close>

lemma fields_toggleFractal [simp]:
  "zoom (toggleFractal g) = zoom g"
  "zoomSpeed (toggleFractal g) = zoomSpeed g"
  "lastUpdate (toggleFractal g) = lastUpdate g"
  "centerX (toggleFractal g) = centerX g"
  "centerY (toggleFractal g) = centerY g"
  by (simp_all add: toggleFractal_def Let_def)

lemma input_cases:
  obtains (slider) "leftPressed h" "cursorX h < 100" "70 \<le> cursorY h \<and> cursorY h \<le> 270"
  | (button) "leftPressed h" "cursorX h < 100" "\<not> (70 \<le> cursorY h \<and> cursorY h \<le> 270)"
      "300 \<le> cursorY h \<and> cursorY h \<le> 340"
  | (beside) "leftPressed h" "cursorX h < 100" "\<not> (70 \<le> cursorY h \<and> cursorY h \<le> 270)"
      "\<not> (300 \<le> cursorY h \<and> cursorY h \<le> 340)"
  | (right) "leftPressed h" "\<not> cursorX h < 100"
  | (released) "\<not> leftPressed h"
  by blast

lemma Update0_slider:
  assumes "on_slider h"
  shows "Update0 h g =
     g\<lparr>lastUpdate := now h,
       zoomSpeed := real_of_int (cursorY h - 70) / 200 * 0.5,
       zoom := max 1 (min (zoom g * ((1 + real_of_int (cursorY h - 70) / 200 * 0.5) powr (now h - lastUpdate g))) (10 ^ 15))\<rparr>"
  using assms unfolding on_slider_def Update0_def Let_def by simp

lemma Update0_other:
  assumes "\<not> on_slider h"
  shows "Update0 h g =
     g\<lparr>lastUpdate := now h,
       zoom := max 1 (min (zoom g * ((1 + zoomSpeed g) powr (now h - lastUpdate g))) (10 ^ 15))\<rparr>"
proof (cases h rule: input_cases)
  case slider
  then show ?thesis using assms by (simp add: on_slider_def)
next
  case button
  show ?thesis unfolding Update0_def Let_def by (simp add: button)
next
  case beside
  show ?thesis unfolding Update0_def Let_def by (simp add: beside)
next
  case right
  show ?thesis unfolding Update0_def Let_def by (simp add: right)
next
  case released
  show ?thesis unfolding Update0_def Let_def by (simp add: released)
qed

lemma Update_slider:
  assumes "on_slider h"
  shows "Update h g =
     g\<lparr>lastUpdate := now h,
       zoomSpeed := real_of_int (cursorY h - 70) / 200 * 0.5,
       zoom := max 1 (min (zoom g * ((1 + real_of_int (cursorY h - 70) / 200 * 0.5) powr (now h - lastUpdate g))) (10 ^ 15))\<rparr>"
  using assms unfolding on_slider_def Update_def Let_def by simp

lemma Update_button:
  assumes "on_button h"
  shows "Update h g =
     (toggleFractal (g\<lparr>lastUpdate := now h\<rparr>))
       \<lparr>zoom := max 1 (min (zoom g * ((1 + zoomSpeed g) powr (now h - lastUpdate g))) (10 ^ 15))\<rparr>"
proof -
  have n: "\<not> (70 \<le> cursorY h \<and> cursorY h \<le> 270)" using assms by (simp add: on_button_def)
  have b: "leftPressed h" "cursorX h < 100" "300 \<le> cursorY h \<and> cursorY h \<le> 340"
    using assms by (simp_all add: on_button_def)
  show ?thesis unfolding Update_def Let_def by (simp add: n b)
qed

lemma Update_idle:
  assumes "\<not> on_slider h" "\<not> on_button h"
  shows "Update h g =
     g\<lparr>lastUpdate := now h,
       zoom := max 1 (min (zoom g * ((1 + zoomSpeed g) powr (now h - lastUpdate g))) (10 ^ 15))\<rparr>"
proof (cases h rule: input_cases)
  case slider
  then show ?thesis using assms by (simp add: on_slider_def)
next
  case button
  then show ?thesis using assms by (simp add: on_button_def)
next
  case beside
  show ?thesis unfolding Update_def Let_def by (simp add: beside)
next
  case right
  show ?thesis unfolding Update_def Let_def by (simp add: right)
next
  case released
  show ?thesis unfolding Update_def Let_def by (simp add: released)
qed

lemma zoomSpeed_Update0:
  "zoomSpeed (Update0 h g) = (if on_slider h then real_of_int (cursorY h - 70) / 200 * 0.5 else zoomSpeed g)"
  by (simp add: Update0_slider Update0_other)

lemma zoomSpeed_Update:
  "zoomSpeed (Update h g) = (if on_slider h then real_of_int (cursorY h - 70) / 200 * 0.5 else zoomSpeed g)"
  by (cases "on_slider h"; cases "on_button h") (simp_all add: Update_slider Update_button Update_idle)

lemma zoom_Update0:
  "zoom (Update0 h g) =
     max 1 (min (zoom g * ((1 + zoomSpeed (Update0 h g)) powr (now h - lastUpdate g))) (10 ^ 15))"
  by (cases "on_slider h") (simp_all add: Update0_slider Update0_other)

lemma zoom_Update:
  "zoom (Update h g) =
     max 1 (min (zoom g * ((1 + zoomSpeed (Update h g)) powr (now h - lastUpdate g))) (10 ^ 15))"
  by (cases "on_slider h"; cases "on_button h") (simp_all add: Update_slider Update_button Update_idle)

lemma lastUpdate_Update0 [simp]: "lastUpdate (Update0 h g) = now h"
  by (cases "on_slider h") (simp_all add: Update0_slider Update0_other)

lemma lastUpdate_Update [simp]: "lastUpdate (Update h g) = now h"
  by (cases "on_slider h"; cases "on_button h") (simp_all add: Update_slider Update_button Update_idle)


lemma slider_rate_nonneg: "on_slider h \<Longrightarrow> 0 \<le> real_of_int (cursorY h - 70) / 200 * 0.5"
  by (simp add: on_slider_def)













text \<open>
  Claim C9. With the left button pressed at \<open>x < 100\<close> and \<open>y\<close> in the slider range
  \<open>[70, 270]\<close>, \<^verbatim>\<open>Update\<close> (in both programs) sets the zoom speed to
  \<open>(y - 70) / (270 - 70) * 0.5\<close>: \<open>0\<close> at \<open>y = 70\<close>, \<open>0.25\<close> at the midpoint \<open>y = 170\<close> and
  \<open>0.5\<close> at \<open>y = 270\<close>.
\<close>

theorem slider_to_rate:
  fixes g :: Game and g0 :: Game0
  assumes "leftPressed h" and "cursorX h < 100" and "70 \<le> cursorY h" and "cursorY h \<le> 270"
  shows "zoomSpeed (Update h g) = (real_of_int (cursorY h) - 70) / (270 - 70) * 0.5
    \<and> zoomSpeed (Update0 h g0) = (real_of_int (cursorY h) - 70) / (270 - 70) * 0.5
    \<and> (cursorY h = 70 \<longrightarrow> zoomSpeed (Update h g) = 0 \<and> zoomSpeed (Update0 h g0) = 0)
    \<and> (cursorY h = 170 \<longrightarrow> zoomSpeed (Update h g) = 0.25 \<and> zoomSpeed (Update0 h g0) = 0.25)
    \<and> (cursorY h = 270 \<longrightarrow> zoomSpeed (Update h g) = 0.5 \<and> zoomSpeed (Update0 h g0) = 0.5)"
proof -
  have s: "on_slider h" using assms by (simp add: on_slider_def)
  show ?thesis by (simp add: zoomSpeed_Update zoomSpeed_Update0 s)
qed

theorem slider_to_rate_witness:
  "zoomSpeed (Update \<lparr>now = 1, leftPressed = True, cursorX = 50, cursorY = 70\<rparr> (main 0)) = 0
   \<and> zoomSpeed (Update \<lparr>now = 1, leftPressed = True, cursorX = 50, cursorY = 170\<rparr> (main 0)) = 0.25
   \<and> zoomSpeed (Update \<lparr>now = 1, leftPressed = True, cursorX = 50, cursorY = 270\<rparr> (main 0)) = 0.5
   \<and> zoomSpeed (Update0 \<lparr>now = 1, leftPressed = True, cursorX = 50, cursorY = 70\<rparr> (main0 0)) = 0
   \<and> zoomSpeed (Update0 \<lparr>now = 1, leftPressed = True, cursorX = 50, cursorY = 170\<rparr> (main0 0)) = 0.25
   \<and> zoomSpeed (Update0 \<lparr>now = 1, leftPressed = True, cursorX = 50, cursorY = 270\<rparr> (main0 0)) = 0.5"
  using slider_to_rate [of "\<lparr>now = 1, leftPressed = True, cursorX = 50, cursorY = 70\<rparr>" "main 0" "main0 0"]
    slider_to_rate [of "\<lparr>now = 1, leftPressed = True, cursorX = 50, cursorY = 170\<rparr>" "main 0" "main0 0"]
    slider_to_rate [of "\<lparr>now = 1, leftPressed = True, cursorX = 50, cursorY = 270\<rparr>" "main 0" "main0 0"]
  by simp

text \<open>
  Claim C6 says that the viewport created at startup has zoom \<open>1\<close>. The \<^verbatim>\<open>Game\<close> literal
  of \<^verbatim>\<open>main\<close> (in both programs) has \<^verbatim>\<open>zoom: 0.0\<close>.
\<close>

theorem main_zoom_counterexample:
  "zoom (main 0) \<noteq> 1 \<and> zoom (main0 0) \<noteq> 1"
  by (simp add: main_def main0_def)

text \<open>
  With a zoom speed in \<open>[0, 0.5]\<close> and at most 1000 seconds elapsed, the exact power is far
  inside the range of a \<^verbatim>\<open>float64\<close>, so \<^verbatim>\<open>math.Pow\<close> does not overflow.
\<close>

lemma pow_in_range:
  fixes r e :: real
  assumes "0 \<le> r" and "r \<le> 1 / 2" and "e \<le> 1000"
  shows "(1 + r) powr e < 2 ^ 1023"
proof -
  have "(1 + r) powr e \<le> (1 + r) powr 1000"
    using assms by (intro powr_mono) auto
  also have "\<dots> \<le> (3 / 2) powr 1000"
    using assms by (intro powr_mono2) auto
  also have "\<dots> = (3 / 2 :: real) ^ 1000"
    by simp
  also have "\<dots> < 2 ^ 1000"
    by (intro power_strict_mono) auto
  also have "\<dots> < (2::real) ^ 1023"
    by (intro power_strict_increasing) auto
  finally show ?thesis .
qed

lemma slider_rate_le_half: "on_slider h \<Longrightarrow> real_of_int (cursorY h - 70) / 200 * 0.5 \<le> 1 / 2"
  by (simp add: on_slider_def)

lemma first_rate_range:
  "0 \<le> zoomSpeed (Update h (main t0))" "zoomSpeed (Update h (main t0)) \<le> 1 / 2"
  "0 \<le> zoomSpeed (Update0 h (main0 t0))" "zoomSpeed (Update0 h (main0 t0)) \<le> 1 / 2"
  using slider_rate_nonneg [of h] slider_rate_le_half [of h]
  by (simp_all add: zoomSpeed_Update zoomSpeed_Update0 main_def main0_def)

text \<open>
  Claim C6, amended. The state created at startup has zoom \<open>0\<close>, zoom speed \<open>0.01\<close>, the
  base bounds \<open>[-2.5, 1] \<times> [-1.5, 1.5]\<close> and the initial centre of its program. When the
  first call of \<^verbatim>\<open>Update\<close> comes at most 1000 seconds after startup, the power
  \<open>(1 + zoomSpeed) ^ elapsed\<close> is below \<open>2 ^ 1023\<close>, so \<^verbatim>\<open>math.Pow\<close> does not overflow, and
  that call brings the zoom to \<open>1\<close>. Nothing is stated for a later first call: once
  \<^verbatim>\<open>math.Pow\<close> overflows, the code computes \<open>0 * +Inf = NaN\<close>.
\<close>

theorem main_initial_state:
  "zoom (main t0) = 0 \<and> zoomSpeed (main t0) = 0.01
   \<and> minX (main t0) = - 2.5 \<and> maxX (main t0) = 1 \<and> minY (main t0) = - 1.5 \<and> maxY (main t0) = 1.5
   \<and> centerX (main t0) = 0.42884 \<and> centerY (main t0) = - 0.231345
   \<and> zoom (main0 t0) = 0 \<and> zoomSpeed (main0 t0) = 0.01
   \<and> minX (main0 t0) = - 2.5 \<and> maxX (main0 t0) = 1 \<and> minY (main0 t0) = - 1.5 \<and> maxY (main0 t0) = 1.5
   \<and> centerX (main0 t0) = - 0.7445398603559083806 \<and> centerY (main0 t0) = 0.1217237738944248242
   \<and> (now h - t0 \<le> 1000 \<longrightarrow>
        (1 + zoomSpeed (Update h (main t0))) powr (now h - t0) < 2 ^ 1023
        \<and> zoom (Update h (main t0)) = 1
        \<and> (1 + zoomSpeed (Update0 h (main0 t0))) powr (now h - t0) < 2 ^ 1023
        \<and> zoom (Update0 h (main0 t0)) = 1)"
proof -
  have "zoom (Update h (main t0)) = 1"
    unfolding zoom_Update [of h "main t0"] by (simp add: main_def)
  moreover have "zoom (Update0 h (main0 t0)) = 1"
    unfolding zoom_Update0 [of h "main0 t0"] by (simp add: main0_def)
  moreover have "now h - t0 \<le> 1000 \<longrightarrow>
      (1 + zoomSpeed (Update h (main t0))) powr (now h - t0) < 2 ^ 1023"
    using pow_in_range [of "zoomSpeed (Update h (main t0))" "now h - t0"]
      first_rate_range(1,2) [of h t0]
    by simp
  moreover have "now h - t0 \<le> 1000 \<longrightarrow>
      (1 + zoomSpeed (Update0 h (main0 t0))) powr (now h - t0) < 2 ^ 1023"
    using pow_in_range [of "zoomSpeed (Update0 h (main0 t0))" "now h - t0"]
      first_rate_range(3,4) [of h t0]
    by simp
  ultimately show ?thesis by (simp add: main_def main0_def)
qed

theorem main_initial_state_witness:
  "now \<lparr>now = 1, leftPressed = False, cursorX = 0, cursorY = 0\<rparr> - 0 \<le> 1000
   \<and> zoom (main 0) = 0 \<and> zoom (main0 0) = 0
   \<and> zoom (Update \<lparr>now = 1, leftPressed = False, cursorX = 0, cursorY = 0\<rparr> (main 0)) = 1
   \<and> zoom (Update0 \<lparr>now = 1, leftPressed = False, cursorX = 0, cursorY = 0\<rparr> (main0 0)) = 1"
  using main_initial_state [of 0 "\<lparr>now = 1, leftPressed = False, cursorX = 0, cursorY = 0\<rparr>"]
  by simp

subsection \<open>toggleFractal\<close>

lemma fractalType_toggleFractal:
  "fractalType (toggleFractal g) = (fractalType g + 1) smod 2"
  by (simp add: toggleFractal_def Let_def)

lemma julia_toggleFractal:
  "juliaX (toggleFractal g) = (if fractalType (toggleFractal g) = FractalJulia then centerX g else juliaX g)"
  "juliaY (toggleFractal g) = (if fractalType (toggleFractal g) = FractalJulia then centerY g else juliaY g)"
  by (simp_all add: toggleFractal_def Let_def)

lemma toggleFractal_kinds:
  "fractalType g = FractalMandelbrot \<Longrightarrow> fractalType (toggleFractal g) = FractalJulia"
  "fractalType g = FractalJulia \<Longrightarrow> fractalType (toggleFractal g) = FractalMandelbrot"
  by (simp_all add: fractalType_toggleFractal FractalMandelbrot_def FractalJulia_def smod_int_alt_def)

lemma Update_aux:
  "juliaX (Update h g) = (if on_button h then juliaX (toggleFractal g) else juliaX g)"
  "juliaY (Update h g) = (if on_button h then juliaY (toggleFractal g) else juliaY g)"
  "fractalType (Update h g) = (if on_button h then fractalType (toggleFractal g) else fractalType g)"
  "centerX (Update h g) = centerX g"
  "centerY (Update h g) = centerY g"
proof -
  have d: "on_slider h \<Longrightarrow> \<not> on_button h"
    by (simp add: on_slider_def on_button_def)
  have t: "toggleFractal (g\<lparr>lastUpdate := now h\<rparr>) = (toggleFractal g)\<lparr>lastUpdate := now h\<rparr>"
    by (simp add: toggleFractal_def Let_def)
  show "juliaX (Update h g) = (if on_button h then juliaX (toggleFractal g) else juliaX g)"
    "juliaY (Update h g) = (if on_button h then juliaY (toggleFractal g) else juliaY g)"
    "fractalType (Update h g) = (if on_button h then fractalType (toggleFractal g) else fractalType g)"
    "centerX (Update h g) = centerX g"
    "centerY (Update h g) = centerY g"
    using d by (cases "on_slider h"; cases "on_button h";
        simp add: Update_slider Update_button Update_idle t)+
qed

lemma run_kind:
  "fractalType g = FractalMandelbrot \<or> fractalType g = FractalJulia \<Longrightarrow>
   fractalType (run hs g) = FractalMandelbrot \<or> fractalType (run hs g) = FractalJulia"
proof (induction hs arbitrary: g)
  case Nil
  then show ?case by simp
next
  case (Cons h hs)
  have "fractalType (Update h g) = FractalMandelbrot \<or> fractalType (Update h g) = FractalJulia"
    using Cons.prems toggleFractal_kinds [of g] by (auto simp: Update_aux(3))
  from Cons.IH [OF this] show ?case by simp
qed

text \<open>
  Claim C8. From a state whose kind is Mandelbrot or Julia, two calls of
  \<^verbatim>\<open>toggleFractal\<close> restore the kind, and every state reached from \<^verbatim>\<open>main\<close> has one of
  these two kinds. A toggle that enters Julia sets \<^verbatim>\<open>(juliaX, juliaY)\<close> to the centre of
  that moment; a toggle that does not enter Julia leaves them as they are; a later change
  of the centre does not change them; a call of \<^verbatim>\<open>Update\<close> changes the kind and the
  constant only by a toggle (the button region, \<open>x < 100\<close> and \<open>300 \<le> y \<le> 340\<close>, with the
  left button pressed), and never changes the centre.
\<close>

theorem toggleFractal_twice_and_aux:
  "(fractalType g = FractalMandelbrot \<or> fractalType g = FractalJulia \<longrightarrow>
      fractalType (toggleFractal (toggleFractal g)) = fractalType g)
   \<and> (fractalType (run hs (main t0)) = FractalMandelbrot \<or> fractalType (run hs (main t0)) = FractalJulia)
   \<and> (fractalType (toggleFractal g) = FractalJulia \<longrightarrow>
        juliaX (toggleFractal g) = centerX g \<and> juliaY (toggleFractal g) = centerY g)
   \<and> (fractalType (toggleFractal g) \<noteq> FractalJulia \<longrightarrow>
        juliaX (toggleFractal g) = juliaX g \<and> juliaY (toggleFractal g) = juliaY g)
   \<and> juliaX ((toggleFractal g)\<lparr>centerX := a, centerY := b\<rparr>) = juliaX (toggleFractal g)
   \<and> juliaY ((toggleFractal g)\<lparr>centerX := a, centerY := b\<rparr>) = juliaY (toggleFractal g)
   \<and> (\<not> (leftPressed h \<and> cursorX h < 100 \<and> 300 \<le> cursorY h \<and> cursorY h \<le> 340) \<longrightarrow>
        juliaX (Update h g) = juliaX g \<and> juliaY (Update h g) = juliaY g
        \<and> fractalType (Update h g) = fractalType g)
   \<and> (leftPressed h \<and> cursorX h < 100 \<and> 300 \<le> cursorY h \<and> cursorY h \<le> 340 \<longrightarrow>
        juliaX (Update h g) = juliaX (toggleFractal g) \<and> juliaY (Update h g) = juliaY (toggleFractal g)
        \<and> fractalType (Update h g) = fractalType (toggleFractal g))
   \<and> centerX (Update h g) = centerX g \<and> centerY (Update h g) = centerY g"
proof -
  have twice: "fractalType g = FractalMandelbrot \<or> fractalType g = FractalJulia \<longrightarrow>
      fractalType (toggleFractal (toggleFractal g)) = fractalType g"
    using toggleFractal_kinds [of g] toggleFractal_kinds [of "toggleFractal g"] by auto
  have reach: "fractalType (run hs (main t0)) = FractalMandelbrot \<or> fractalType (run hs (main t0)) = FractalJulia"
    by (rule run_kind) (simp add: main_def FractalMandelbrot_def)
  show ?thesis
    using twice reach by (simp add: julia_toggleFractal Update_aux on_button_def)
qed

theorem toggleFractal_twice_and_aux_witness:
  "fractalType (main 0) = FractalMandelbrot
   \<and> fractalType (toggleFractal (main 0)) = FractalJulia
   \<and> juliaX (toggleFractal (main 0)) = 0.42884
   \<and> juliaY (toggleFractal (main 0)) = - 0.231345
   \<and> fractalType (toggleFractal (toggleFractal (main 0))) = FractalMandelbrot
   \<and> juliaX (toggleFractal (toggleFractal (main 0))) = 0.42884
   \<and> juliaX (Update \<lparr>now = 1, leftPressed = True, cursorX = 50, cursorY = 320\<rparr> (main 0)) = 0.42884
   \<and> juliaX (Update \<lparr>now = 1, leftPressed = False, cursorX = 50, cursorY = 320\<rparr> (main 0)) = 0"
proof -
  have k: "fractalType (main 0) = FractalMandelbrot"
    by (simp add: main_def FractalMandelbrot_def)
  have c: "centerX (main 0) = 0.42884" "centerY (main 0) = - 0.231345" "juliaX (main 0) = 0"
    by (simp_all add: main_def)
  show ?thesis
    using toggleFractal_twice_and_aux [of "main 0" "[]" 0 0 0 "\<lparr>now = 1, leftPressed = True, cursorX = 50, cursorY = 320\<rparr>"]
      toggleFractal_twice_and_aux [of "toggleFractal (main 0)" "[]" 0 0 0 "\<lparr>now = 1, leftPressed = False, cursorX = 50, cursorY = 320\<rparr>"]
      toggleFractal_twice_and_aux [of "main 0" "[]" 0 0 0 "\<lparr>now = 1, leftPressed = False, cursorX = 50, cursorY = 320\<rparr>"]
      toggleFractal_kinds [of "main 0"] toggleFractal_kinds [of "toggleFractal (main 0)"] k c
    by (simp add: FractalMandelbrot_def FractalJulia_def)
qed

section \<open>Properties of the evaluators on non-finite values\<close>

lemma julia_f64_loop_eq:
  "julia_f64_loop cx cy maxIter x y iteration = mandelbrot_f64_loop cx cy maxIter x y iteration"
proof (induction cx cy maxIter x y iteration rule: mandelbrot_f64_loop.induct)
  case (1 cx cy maxIter x y iteration)
  let ?c = "f64_le (f64_add (f64_mul x x) (f64_mul y y)) (Fin 4) \<and> iteration < maxIter"
  let ?x = "f64_add (f64_sub (f64_mul x x) (f64_mul y y)) cx"
  let ?y = "f64_add (f64_mul (f64_mul (Fin 2) x) y) cy"
  show ?case
  proof (cases ?c)
    case True
    have "julia_f64_loop cx cy maxIter x y iteration = julia_f64_loop cx cy maxIter ?x ?y (iteration + 1)"
      using True by (subst julia_f64_loop.simps) (simp add: Let_def)
    also have "\<dots> = mandelbrot_f64_loop cx cy maxIter ?x ?y (iteration + 1)"
      using "1.IH" [OF True refl refl] .
    also have "\<dots> = mandelbrot_f64_loop cx cy maxIter x y iteration"
      using True by (subst (2) mandelbrot_f64_loop.simps) (simp add: Let_def)
    finally show ?thesis .
  next
    case False
    then show ?thesis
      by (subst julia_f64_loop.simps, subst mandelbrot_f64_loop.simps) auto
  qed
qed

text \<open>On finite values the two models of the loop agree.\<close>

lemma mandelbrot_f64_loop_Fin:
  "mandelbrot_f64_loop (Fin cx) (Fin cy) maxIter (Fin x) (Fin y) i =
     (case mandelbrot_loop cx cy maxIter x y i of (x', y', n) \<Rightarrow> (Fin x', Fin y', n))"
proof (induction cx cy maxIter x y i rule: mandelbrot_loop.induct)
  case (1 cx cy maxIter x y i)
  show ?case
  proof (cases "x * x + y * y \<le> 4 \<and> i < maxIter")
    case True
    let ?x = "x * x - y * y + cx" and ?y = "2 * x * y + cy"
    have "mandelbrot_f64_loop (Fin cx) (Fin cy) maxIter (Fin x) (Fin y) i
        = mandelbrot_f64_loop (Fin cx) (Fin cy) maxIter (Fin ?x) (Fin ?y) (i + 1)"
      using True by (subst mandelbrot_f64_loop.simps) (simp add: Let_def f64_sub_def)
    also have "\<dots> = (case mandelbrot_loop cx cy maxIter ?x ?y (i + 1) of (x', y', n) \<Rightarrow> (Fin x', Fin y', n))"
      using "1.IH" [OF True refl refl] .
    also have "mandelbrot_loop cx cy maxIter ?x ?y (i + 1) = mandelbrot_loop cx cy maxIter x y i"
      using True by (subst (2) mandelbrot_loop.simps) (simp add: Let_def)
    finally show ?thesis .
  next
    case False
    then show ?thesis
      by (subst mandelbrot_f64_loop.simps, subst mandelbrot_loop.simps) auto
  qed
qed

lemma smoothing_Fin:
  assumes "4 < (m::real)"
  shows "f64_sub (f64_add (Fin (real_of_int n)) (Fin 1))
           (f64_div (math_Log (f64_div (math_Log (Fin m)) (Fin 2))) (math_Log (Fin 2)))
         = Fin (real_of_int n + 1 - ln (ln m / 2) / ln 2)"
proof -
  have "0 < ln m / 2" using logZn_gt [OF assms] ln2_pos by linarith
  then show ?thesis using assms by (simp add: f64_sub_def)
qed

lemma mandelbrot_f64_Fin:
  "mandelbrot_f64 (Fin cx) (Fin cy) maxIter = Fin (mandelbrot cx cy maxIter)"
proof -
  obtain x' y' n where r: "mandelbrot_loop cx cy maxIter 0 0 0 = (x', y', n)"
    by (cases "mandelbrot_loop cx cy maxIter 0 0 0") auto
  have f: "mandelbrot_f64_loop (Fin cx) (Fin cy) maxIter (Fin 0) (Fin 0) 0 = (Fin x', Fin y', n)"
    by (simp add: mandelbrot_f64_loop_Fin r)
  show ?thesis
  proof (cases "n < maxIter")
    case True
    then have "4 < x' * x' + y' * y'" using mandelbrot_loop_result [OF r] by simp
    from smoothing_Fin [OF this, of n] show ?thesis
      using True by (simp add: mandelbrot_f64_def mandelbrot_def f r Let_def)
  next
    case False
    then show ?thesis by (simp add: mandelbrot_f64_def mandelbrot_def f r)
  qed
qed

lemma julia_f64_Fin:
  "julia_f64 (Fin x) (Fin y) (Fin cx) (Fin cy) maxIter = Fin (julia x y cx cy maxIter)"
proof -
  obtain x' y' n where r: "mandelbrot_loop cx cy maxIter x y 0 = (x', y', n)"
    by (cases "mandelbrot_loop cx cy maxIter x y 0") auto
  have f: "julia_f64_loop (Fin cx) (Fin cy) maxIter (Fin x) (Fin y) 0 = (Fin x', Fin y', n)"
    by (simp add: julia_f64_loop_eq mandelbrot_f64_loop_Fin r)
  show ?thesis
  proof (cases "n < maxIter")
    case True
    then have "4 < x' * x' + y' * y'" using mandelbrot_loop_result [OF r] by simp
    from smoothing_Fin [OF this, of n] show ?thesis
      using True by (simp add: julia_f64_def julia_def julia_loop_eq_mandelbrot_loop f r Let_def)
  next
    case False
    then show ?thesis by (simp add: julia_f64_def julia_def julia_loop_eq_mandelbrot_loop f r)
  qed
qed

text \<open>A NaN coordinate goes through the loop and the smoothing formula unchanged.\<close>

lemma f64_add_NaN_right [simp]: "f64_add a NaN = NaN"
  by (cases a) simp_all

lemma f64_le_NaN_right [simp]: "f64_le a NaN = False"
  by (cases a) simp_all

lemma mandelbrot_f64_NaN:
  assumes "2 \<le> maxIter"
  shows "mandelbrot_f64 NaN cy maxIter = NaN"
proof -
  define y1 where "y1 = f64_add (f64_mul (f64_mul (Fin 2) (Fin 0)) (Fin 0)) cy"
  have "mandelbrot_f64_loop NaN cy maxIter (Fin 0) (Fin 0) 0 = mandelbrot_f64_loop NaN cy maxIter NaN y1 1"
    using assms by (subst mandelbrot_f64_loop.simps) (simp add: f64_sub_def y1_def)
  also have "\<dots> = (NaN, y1, 1)"
    by (subst mandelbrot_f64_loop.simps) simp
  finally show ?thesis using assms by (simp add: mandelbrot_f64_def f64_sub_def)
qed

lemma mandelbrot_f64_NaN_2:
  assumes "2 \<le> maxIter"
  shows "mandelbrot_f64 cx NaN maxIter = NaN"
proof -
  define x1 where "x1 = f64_add (f64_sub (f64_mul (Fin 0) (Fin 0)) (f64_mul (Fin 0) (Fin 0))) cx"
  have "mandelbrot_f64_loop cx NaN maxIter (Fin 0) (Fin 0) 0 = mandelbrot_f64_loop cx NaN maxIter x1 NaN 1"
    using assms by (subst mandelbrot_f64_loop.simps) (simp add: x1_def)
  also have "\<dots> = (x1, NaN, 1)"
    by (subst mandelbrot_f64_loop.simps) simp
  finally show ?thesis using assms by (simp add: mandelbrot_f64_def f64_sub_def)
qed

lemma julia_f64_NaN:
  assumes "1 \<le> maxIter"
  shows "julia_f64 NaN y cx cy maxIter = NaN"
proof -
  have "julia_f64_loop cx cy maxIter NaN y 0 = (NaN, y, 0)"
    by (subst julia_f64_loop.simps) simp
  then show ?thesis using assms by (simp add: julia_f64_def f64_sub_def)
qed

lemma julia_f64_NaN_2:
  assumes "1 \<le> maxIter"
  shows "julia_f64 x NaN cx cy maxIter = NaN"
proof -
  have "julia_f64_loop cx cy maxIter x NaN 0 = (x, NaN, 0)"
    by (subst julia_f64_loop.simps) simp
  then show ?thesis using assms by (simp add: julia_f64_def f64_sub_def)
qed

lemma mandelbrot_f64_PInf: "mandelbrot_f64 PInf (Fin 0) 2 = NInf"
proof -
  have "mandelbrot_f64_loop PInf (Fin 0) 2 (Fin 0) (Fin 0) 0
      = mandelbrot_f64_loop PInf (Fin 0) 2 PInf (Fin 0) 1"
    by (subst mandelbrot_f64_loop.simps) (simp add: f64_sub_def)
  also have "\<dots> = (PInf, Fin 0, 1)"
    by (subst mandelbrot_f64_loop.simps) simp
  finally show ?thesis
    by (simp add: mandelbrot_f64_def f64_sub_def signed_inf_def)
qed

lemma getColor_total: "\<exists>c. getColor i m = Inr c"
  using getColor_in_palette [of i m] getColor_outside [of i m] by (cases "0 < i \<and> i < m") auto

lemma getColor_no_panic: "getColor i m \<noteq> Inl IndexOutOfRange"
  using getColor_total [of i m] by auto

text \<open>Where the conversion is defined, and on the points of a bounded region, the two models agree.\<close>

lemma go_int_f64_Fin:
  assumes "- (2 ^ 63) < v" and "v < 2 ^ 63"
  shows "go_int_f64 u (Fin v) = go_int v"
proof -
  have "- (2 ^ 63) \<le> go_int v \<and> go_int v < 2 ^ 63"
  proof (cases "0 \<le> v")
    case True
    then have "go_int v = \<lfloor>v\<rfloor>" by (simp add: go_int_def)
    moreover have "0 \<le> \<lfloor>v\<rfloor>" using True by simp
    moreover have "\<lfloor>v\<rfloor> < 2 ^ 63" using assms(2) by (simp add: floor_less_iff)
    ultimately show ?thesis by simp
  next
    case False
    then have "go_int v = \<lceil>v\<rceil>" by (simp add: go_int_def)
    moreover have "\<lceil>v\<rceil> \<le> 0" using False by (simp add: ceiling_le_iff)
    moreover have "- (2 ^ 63) < \<lceil>v\<rceil>" using assms(1) by (simp add: less_ceiling_iff)
    ultimately show ?thesis by simp
  qed
  then show ?thesis by (simp add: go_int_f64_def)
qed

lemma go_int_f64_escape_value:
  assumes "0 \<le> v" and "v < real_of_int m + 1" and "m \<le> 200"
  shows "go_int_f64 u (Fin v) = go_int v"
proof -
  have "v < 2 ^ 63" using assms(2,3) by simp
  moreover have "- (2 ^ 63) < v" using assms(1) by simp
  ultimately show ?thesis by (rule go_int_f64_Fin [rotated])
qed

lemma Draw_color0_f64_Fin:
  assumes "cx * cx + cy * cy \<le> 100"
  shows "Draw_color0_f64 u (Fin cx) (Fin cy) = Draw_color0 cx cy"
proof -
  have "go_int_f64 u (Fin (mandelbrot cx cy 100)) = go_int (mandelbrot cx cy 100)"
    using mandelbrot_nonneg [of 100 cx cy] mandelbrot_less [of cx cy 100] assms
    by (intro go_int_f64_escape_value [of _ 100]) simp_all
  then show ?thesis
    by (simp add: Draw_color0_f64_def Draw_color0_def mandelbrot_f64_Fin)
qed

lemma Draw_color_f64_Fin:
  assumes "cx * cx + cy * cy \<le> 16" and "juliaX g * juliaX g + juliaY g * juliaY g \<le> 100"
  shows "Draw_color_f64 u (fractalType g) (Fin (juliaX g)) (Fin (juliaY g)) (Fin cx) (Fin cy)
       = Draw_color g cx cy"
proof -
  have "go_int_f64 u (Fin (mandelbrot cx cy 200)) = go_int (mandelbrot cx cy 200)"
    using mandelbrot_nonneg [of 200 cx cy] mandelbrot_less [of cx cy 200] assms(1)
    by (intro go_int_f64_escape_value [of _ 200]) simp_all
  moreover have "go_int_f64 u (Fin (julia cx cy (juliaX g) (juliaY g) 200))
      = go_int (julia cx cy (juliaX g) (juliaY g) 200)"
    using julia_nonneg [of 200 "juliaX g" "juliaY g" cx cy]
      julia_less [of cx cy "juliaX g" "juliaY g" 200] assms
    by (intro go_int_f64_escape_value [of _ 200]) simp_all
  moreover have "go_int_f64 u (Fin 0) = go_int 0"
    by (simp add: go_int_f64_def go_int_def)
  ultimately show ?thesis
    by (simp add: Draw_color_f64_def Draw_color_def mandelbrot_f64_Fin julia_f64_Fin)
qed

text \<open>
  Claim C4 says that the pipeline from the evaluator to the colour lookup detects a
  non-finite smoothing result by a finiteness check and replaces it by a value in
  \<open>[0, maxIter)\<close>. No such check exists in either program: \<^verbatim>\<open>mandelbrot(NaN, 0, 2)\<close>
  returns NaN and \<^verbatim>\<open>mandelbrot(+Inf, 0, 2)\<close> returns \<open>-Inf\<close>, neither of which is at
  least \<open>0\<close>, and the conversion \<^verbatim>\<open>int(f)\<close> in \<^verbatim>\<open>Draw\<close> receives them as they are.
\<close>

theorem finiteness_check_counterexample:
  "mandelbrot_f64 NaN (Fin 0) 2 = NaN
   \<and> \<not> f64_le (Fin 0) (mandelbrot_f64 NaN (Fin 0) 2)
   \<and> mandelbrot_f64 PInf (Fin 0) 2 = NInf
   \<and> \<not> f64_le (Fin 0) (mandelbrot_f64 PInf (Fin 0) 2)
   \<and> go_int_f64 7 (mandelbrot_f64 NaN (Fin 0) 2) = 7"
  by (simp add: mandelbrot_f64_NaN mandelbrot_f64_PInf go_int_f64_def)

text \<open>
  Claim C4, amended. The evaluators make no finiteness check: a point with a NaN
  coordinate gives a NaN escape value (\<^verbatim>\<open>mandelbrot\<close> for \<^verbatim>\<open>maxIter \<ge> 2\<close>, \<^verbatim>\<open>julia\<close>
  for \<^verbatim>\<open>maxIter \<ge> 1\<close>), and \<^verbatim>\<open>Draw\<close> converts a NaN or infinite escape value with
  \<^verbatim>\<open>int(f)\<close>, whose result is then implementation-dependent. Whatever integer the
  conversion gives, \<^verbatim>\<open>getColor\<close> indexes the palette only inside its bounds, so the
  colour lookup of \<^verbatim>\<open>Draw\<close> never panics. For finite points with \<open>cx\<^sup>2 + cy\<^sup>2 \<le> 16\<close> (and
  a Julia constant with \<open>jx\<^sup>2 + jy\<^sup>2 \<le> 100\<close>), computed exactly, the escape value is the
  finite value of the model on the reals: the smoothing formula is applied only to
  \<open>|z|\<^sup>2 > 4\<close> and gives neither NaN nor an infinity there, the conversion is inside its
  domain, and the colour is that of the model on the reals.
\<close>

theorem non_finite_values_in_pipeline:
  "(2 \<le> m \<longrightarrow> mandelbrot_f64 NaN cy m = NaN \<and> mandelbrot_f64 cx NaN m = NaN)
   \<and> (1 \<le> m \<longrightarrow> julia_f64 NaN y jx jy m = NaN \<and> julia_f64 x NaN jx jy m = NaN)
   \<and> go_int_f64 u NaN = u \<and> go_int_f64 u PInf = u \<and> go_int_f64 u NInf = u
   \<and> getColor i m \<noteq> Inl IndexOutOfRange
   \<and> Draw_color0_f64 u cx cy \<noteq> Inl IndexOutOfRange
   \<and> Draw_color_f64 u kind jx jy cx cy \<noteq> Inl IndexOutOfRange
   \<and> (a * a + b * b \<le> 100 \<longrightarrow> mandelbrot_f64 (Fin a) (Fin b) m = Fin (mandelbrot a b m))
   \<and> (p * p + q * q \<le> 16 \<and> a * a + b * b \<le> 100 \<longrightarrow>
        julia_f64 (Fin p) (Fin q) (Fin a) (Fin b) m = Fin (julia p q a b m))
   \<and> (- (2 ^ 63) < v \<and> v < 2 ^ 63 \<longrightarrow> go_int_f64 u (Fin v) = go_int v)
   \<and> (a * a + b * b \<le> 16 \<longrightarrow> Draw_color0_f64 u (Fin a) (Fin b) = Draw_color0 a b)
   \<and> (a * a + b * b \<le> 16 \<and> juliaX g * juliaX g + juliaY g * juliaY g \<le> 100 \<longrightarrow>
        Draw_color_f64 u (fractalType g) (Fin (juliaX g)) (Fin (juliaY g)) (Fin a) (Fin b)
        = Draw_color g a b)"
proof -
  have "a * a + b * b \<le> 16 \<longrightarrow> Draw_color0_f64 u (Fin a) (Fin b) = Draw_color0 a b"
    using Draw_color0_f64_Fin [of a b u] by simp
  then show ?thesis
    using mandelbrot_f64_NaN [of m cy] julia_f64_NaN [of m y jx jy]
      mandelbrot_f64_NaN_2 [of m cx] julia_f64_NaN_2 [of m x jx jy]
      go_int_f64_Fin [of v u] Draw_color_f64_Fin [of a b g u]
    by (simp add: go_int_f64_def getColor_no_panic Draw_color0_f64_def Draw_color_f64_def Let_def
        mandelbrot_f64_Fin julia_f64_Fin)
qed

theorem non_finite_values_in_pipeline_witness:
  "(2::int) \<le> 100 \<and> mandelbrot_f64 NaN (Fin 0) 100 = NaN
   \<and> julia_f64 NaN (Fin 0) (Fin 0) (Fin 0) 100 = NaN
   \<and> go_int_f64 0 (mandelbrot_f64 NaN (Fin 0) 100) = 0
   \<and> - (2 ^ 63) < (5.9 :: real) \<and> (5.9 :: real) < 2 ^ 63 \<and> go_int_f64 0 (Fin 5.9) = 5
   \<and> (0::real) * 0 + 0 * 0 \<le> 16
   \<and> Draw_color0_f64 0 (Fin 0) (Fin 0) = Draw_color0 0 0"
  using non_finite_values_in_pipeline
    [of 100 "Fin 0" NaN "Fin 0" "Fin 0" "Fin 0" "Fin 0" 0 0 0 0 0 0 0 "5.9" "main 0"]
  by (simp add: go_int_def)

end
